theory Spec2Isabelle
  imports
    Complex_Main
    "HOL-Library.Char_ord"
    "HOL-Library.List_Lexorder"
    "HOL-Library.Sublist"
    "HOL-Library.Multiset"
begin

section \<open>H-2 back wages by employer: the notebook as a pipeline of pure stages\<close>

text \<open>
  The notebook \<^verbatim>\<open>notebooks/top-employer-back-wages.ipynb\<close> is a sequence of
  cells, each binding one global from the globals bound before it. Every cell is embedded
  as a function of the variables it reads. A data frame is the list of its rows; a column
  is the list of that field over the rows; a boolean mask is a \<open>bool list\<close>.

  The module \<^verbatim>\<open>loaders\<close> is not part of the sources at hand, so the three loaded frames
  are parameters. Their columns are typed as the specification's interface section types
  them: case identifiers and years are integers, codes and descriptions are (byte) strings,
  the outcome flag is a boolean, the amount is a nullable number (\<open>rat option\<close>,
  \<open>None\<close> for a null), employer identifier and legal name are nullable strings.

  In pandas a numeric column with nulls is a float64 column. Its values are idealised here
  as exact rationals and its additions as exact additions: the model's total of a group is
  the pandas total up to the rounding and overflow of float64 addition. The statements
  below that mention a total are those that do not depend on how an addition rounds: a
  total is compared with the threshold, totals are ordered, and a total of non-negative
  amounts is non-negative. Nothing is stated about the digits of a total.
\<close>

subsection \<open>Rows of the three loaded frames and of the derived frames\<close>

record case_row =
  c_CASE_ID :: int
  DATE_CONCLUDED_YEAR :: int

record employer_row =
  e_CASE_ID :: int
  e_employer_id :: "string option"
  e_ER_LEGAL_NAME :: "string option"

record violation =
  CASE_ID :: int
  ACT_ID :: string
  violation_found :: bool
  ER_EE_VIOL :: string
  VIOLATION_DESC :: string
  AMT_BW_ASSESSED :: "rat option"

text \<open>
  A row of \<^verbatim>\<open>h2_employee_violations\<close>: the violation's own columns (\<open>viol\<close>) and the two
  columns attached by the join, null where the join found no employer record.
\<close>

record h2_row =
  viol :: violation
  employer_id :: "string option"
  ER_LEGAL_NAME :: "string option"

record aggregate =
  h2_backwages :: rat
  names :: string

text \<open>
  The only exception the notebook raises itself is the one of its \<^verbatim>\<open>assert\<close> statement.
  The argument is the exception's message (\<^verbatim>\<open>str(e)\<close>).
\<close>

datatype error = AssertionError string

subsection \<open>The pandas and Python primitives the cells use\<close>

definition isin :: "'a list \<Rightarrow> 'a list \<Rightarrow> bool list" where
  \<comment> \<open>\<^verbatim>\<open>series.isin(values)\<close>: exact membership, element by element\<close>
  "isin series vals = map (\<lambda>x. x \<in> set vals) series"

definition mask_and :: "bool list \<Rightarrow> bool list \<Rightarrow> bool list" where
  \<comment> \<open>\<^verbatim>\<open>a & b\<close> on two masks over the same frame\<close>
  "mask_and a b = map2 (\<and>) a b"

definition mask_not :: "bool list \<Rightarrow> bool list" where
  \<comment> \<open>\<^verbatim>\<open>~a\<close>\<close>
  "mask_not a = map Not a"

definition select :: "'a list \<Rightarrow> bool list \<Rightarrow> 'a list" where
  \<comment> \<open>\<^verbatim>\<open>frame[mask]\<close>: the rows whose mask entry is true, in order\<close>
  "select frame msk = map fst (filter snd (zip frame msk))"

definition df_join ::
  "violation list \<Rightarrow> (int \<times> string option \<times> string option) list \<Rightarrow> h2_row list" where
  \<comment> \<open>\<^verbatim>\<open>left.set_index("CASE_ID").join(right).reset_index()\<close>: a left join on the case
      identifier. A left row is paired with every right row of its key, and kept once with
      null right columns when there is none.\<close>
  "df_join left right =
     concat (map (\<lambda>v.
       case filter (\<lambda>e. fst e = CASE_ID v) right of
         [] \<Rightarrow> [\<lparr>viol = v, employer_id = None, ER_LEGAL_NAME = None\<rparr>]
       | ms \<Rightarrow> map (\<lambda>e. \<lparr>viol = v, employer_id = fst (snd e), ER_LEGAL_NAME = snd (snd e)\<rparr>) ms)
     left)"

definition set_minus :: "'a list \<Rightarrow> 'a list \<Rightarrow> 'a list" where
  \<comment> \<open>\<^verbatim>\<open>set(xs) - set(ys)\<close>, listed without repetition\<close>
  "set_minus xs ys = filter (\<lambda>x. x \<notin> set ys) (remdups xs)"

fun fillna :: "string option list \<Rightarrow> string \<Rightarrow> string list" where
  \<comment> \<open>\<^verbatim>\<open>series.fillna(value)\<close>\<close>
  "fillna [] d = []"
| "fillna (None # xs) d = d # fillna xs d"
| "fillna (Some s # xs) d = s # fillna xs d"

fun str_join :: "string \<Rightarrow> string list \<Rightarrow> string" where
  \<comment> \<open>\<^verbatim>\<open>sep.join(strings)\<close>\<close>
  "str_join sep [] = []"
| "str_join sep [s] = s"
| "str_join sep (s # t # ss) = s @ sep @ str_join sep (t # ss)"

fun series_sum :: "rat option list \<Rightarrow> rat" where
  \<comment> \<open>\<^verbatim>\<open>series.sum()\<close>: nulls are skipped, so a series of nulls only sums to zero. The
      additions are exact here and float64 additions in pandas.\<close>
  "series_sum [] = 0"
| "series_sum (None # xs) = series_sum xs"
| "series_sum (Some a # xs) = a + series_sum xs"

definition groupby :: "h2_row list \<Rightarrow> (string \<times> h2_row list) list" where
  \<comment> \<open>\<^verbatim>\<open>frame.groupby("employer_id")\<close>: one group per distinct non-null key, the groups in
      ascending key order; rows with a null key belong to no group.\<close>
  "groupby frame =
     map (\<lambda>k. (k, filter (\<lambda>r. employer_id r = Some k) frame))
       (sort (remdups (concat (map (\<lambda>r. case employer_id r of None \<Rightarrow> [] | Some k \<Rightarrow> [k]) frame))))"

subsection \<open>The cells\<close>

definition cases :: "case_row list \<Rightarrow> case_row list" where
  \<comment> \<open>the argument is the loaded frame, \<^verbatim>\<open>_cases\<close> in the notebook\<close>
  "cases all_cases =
     select all_cases
       (mask_and (map (\<lambda>y. y \<ge> 2010) (map DATE_CONCLUDED_YEAR all_cases))
                 (map (\<lambda>y. y \<le> 2014) (map DATE_CONCLUDED_YEAR all_cases)))"

definition employer_basics ::
  "employer_row list \<Rightarrow> (int \<times> string option \<times> string option) list" where
  \<comment> \<open>the argument is the loaded frame, \<^verbatim>\<open>_employers\<close> in the notebook\<close>
  "employer_basics all_employers =
     map (\<lambda>e. (e_CASE_ID e, e_employer_id e, e_ER_LEGAL_NAME e)) all_employers"

definition h2_employee_violations ::
  "case_row list \<Rightarrow> (int \<times> string option \<times> string option) list \<Rightarrow> violation list
     \<Rightarrow> h2_row list" where
  "h2_employee_violations cs eb violations =
     df_join
       (select violations
         (mask_and
           (mask_and
             (mask_and (isin (map ACT_ID violations) [''H2A'', ''H2B''])
                       (isin (map CASE_ID violations) (map c_CASE_ID cs)))
             (map (\<lambda>b. b = True) (map violation_found violations)))
           (map (\<lambda>s. s = ''E'') (map ER_EE_VIOL violations))))
       eb"

definition non_guestworker_descs :: "string list" where
  "non_guestworker_descs =
    [''17 Preferential treatment given to H-2A workers'',
     ''02 Unlawful rejection of US workers (2008 & 2010 Rules)'',
     ''Requirement to Hire U.S. Workers - ER failed to properly hire or rehire U.S. workers'',
     ''Layoff- ER improperly laid off similarly employed U.S. workers within 120 days of date of need, unless employee refused or was lawfully rejected'',
     ''Job Opportunity - (U.S. workers) - ER failed to offer U.S. workers bona fide, full-time temp. position due to inequitable qualification requirements'',
     ''Terms and Working Conditions for U.S. Workers - ER failed to offer terms and working conditions as required'']"

definition descs_covered :: "h2_row list \<Rightarrow> bool" where
  \<comment> \<open>the condition of the \<^verbatim>\<open>assert\<close>\<close>
  "descs_covered h2ev =
     (length (set_minus non_guestworker_descs (map (\<lambda>r. VIOLATION_DESC (viol r)) h2ev)) = 0)"

definition h2_guestworker_violations :: "h2_row list \<Rightarrow> h2_row list" where
  "h2_guestworker_violations h2ev =
     select h2ev (mask_not (isin (map (\<lambda>r. VIOLATION_DESC (viol r)) h2ev) non_guestworker_descs))"

definition join_unique_strings :: "string option list \<Rightarrow> string" where
  "join_unique_strings series = str_join '' | '' (sort (remdups (fillna series '''')))"

definition by_employer :: "h2_row list \<Rightarrow> (string \<times> h2_row list) list" where
  "by_employer h2gv = groupby h2gv"

definition employer_aggregates :: "(string \<times> h2_row list) list \<Rightarrow> (string \<times> aggregate) list" where
  "employer_aggregates groups =
     map (\<lambda>(k, g). (k, \<lparr>h2_backwages = series_sum (map (\<lambda>r. AMT_BW_ASSESSED (viol r)) g),
                        names = join_unique_strings (map ER_LEGAL_NAME g)\<rparr>)) groups"

definition top_total_h2_backwages :: "(string \<times> aggregate) list \<Rightarrow> (string \<times> aggregate) list" where
  \<comment> \<open>the rows at or above the threshold, then \<^verbatim>\<open>.sort("h2_backwages", ascending=False)\<close>.
      The notebook leaves the order of rows of equal total to the sort; here they stay in
      the order of the aggregates.\<close>
  "top_total_h2_backwages aggs =
     sort_key (\<lambda>ka. - h2_backwages (snd ka))
       (select aggs (map (\<lambda>t. t \<ge> 100000) (map (\<lambda>ka. h2_backwages (snd ka)) aggs)))"

text \<open>
  The notebook from its loaded frames to the table it saves: the cells in order. The
  \<^verbatim>\<open>assert\<close> carries no message expression, so the exception it raises has the empty
  message; it stands before the grouping, the aggregation and the ranking.
\<close>

definition notebook ::
  "case_row list \<Rightarrow> employer_row list \<Rightarrow> violation list \<Rightarrow> error + (string \<times> aggregate) list" where
  "notebook all_cases all_employers violations =
     (let h2ev = h2_employee_violations (cases all_cases) (employer_basics all_employers) violations
      in if \<not> descs_covered h2ev then Inl (AssertionError '''')
         else Inr (top_total_h2_backwages
                (employer_aggregates (by_employer (h2_guestworker_violations h2ev)))))"

section \<open>The specification's wording, for comparison with the cells\<close>

text \<open>
  The four criteria of the filter stage as the specification lists them: (a) the category
  code is one of the two target codes, (b) the case is one of the loaded cases concluded in
  2010 to 2014, both ends included, (c) the outcome flag is true, (d) the record-type flag
  is the employee-affecting value.
\<close>

definition filter_criteria :: "case_row list \<Rightarrow> violation \<Rightarrow> bool" where
  "filter_criteria ac v \<longleftrightarrow>
     ACT_ID v \<in> {''H2A'', ''H2B''} \<and>
     (\<exists>c \<in> set ac. c_CASE_ID c = CASE_ID v \<and> 2010 \<le> DATE_CONCLUDED_YEAR c \<and> DATE_CONCLUDED_YEAR c \<le> 2014) \<and>
     violation_found v \<and>
     ER_EE_VIOL v = ''E''"

text \<open>
  A violation resolves to an employer identifier through an employer record of its case.
\<close>

definition resolves_to :: "employer_row list \<Rightarrow> violation \<Rightarrow> string \<Rightarrow> bool" where
  "resolves_to ae v eid \<longleftrightarrow> (\<exists>e \<in> set ae. e_CASE_ID e = CASE_ID v \<and> e_employer_id e = Some eid)"

text \<open>
  The distinct legal names of an employer's group, a null name read as the empty string.
\<close>

definition normalized_names :: "h2_row list \<Rightarrow> string \<Rightarrow> string set" where
  "normalized_names rows eid =
     (\<lambda>r. case ER_LEGAL_NAME r of None \<Rightarrow> '''' | Some n \<Rightarrow> n) ` {r \<in> set rows. employer_id r = Some eid}"

section \<open>A small run\<close>

text \<open>
  Five cases (concluded 2009, 2012, 2013, 2014 and 2010), employer records for all but the
  fourth, and violations that between them show every filter criterion, every excluded
  description, a null amount, a join miss (case 4), two spellings of one employer's legal
  name, an employer without a legal name, and totals of exactly 100000 and of 99999.99.
\<close>

definition ex_cases :: "case_row list" where
  "ex_cases =
    [\<lparr>c_CASE_ID = 1, DATE_CONCLUDED_YEAR = 2009\<rparr>,
     \<lparr>c_CASE_ID = 2, DATE_CONCLUDED_YEAR = 2012\<rparr>,
     \<lparr>c_CASE_ID = 3, DATE_CONCLUDED_YEAR = 2013\<rparr>,
     \<lparr>c_CASE_ID = 4, DATE_CONCLUDED_YEAR = 2014\<rparr>,
     \<lparr>c_CASE_ID = 5, DATE_CONCLUDED_YEAR = 2010\<rparr>]"

definition ex_employers :: "employer_row list" where
  "ex_employers =
    [\<lparr>e_CASE_ID = 1, e_employer_id = Some ''11-1'', e_ER_LEGAL_NAME = Some ''Old Farm''\<rparr>,
     \<lparr>e_CASE_ID = 2, e_employer_id = Some ''22-2'', e_ER_LEGAL_NAME = Some ''Acme, Inc.''\<rparr>,
     \<lparr>e_CASE_ID = 3, e_employer_id = Some ''22-2'', e_ER_LEGAL_NAME = Some ''Acme Inc.''\<rparr>,
     \<lparr>e_CASE_ID = 5, e_employer_id = Some ''33-3'', e_ER_LEGAL_NAME = None\<rparr>]"

definition ex_pay :: string where
  "ex_pay = ''05 Failed to pay proper rate''"

definition ex_employee :: "int \<Rightarrow> string \<Rightarrow> string \<Rightarrow> rat option \<Rightarrow> violation" where
  \<comment> \<open>a substantiated employee-affecting violation\<close>
  "ex_employee c a d m =
     \<lparr>CASE_ID = c, ACT_ID = a, violation_found = True, ER_EE_VIOL = ''E'',
      VIOLATION_DESC = d, AMT_BW_ASSESSED = m\<rparr>"

definition ex_employer_only :: violation where
  "ex_employer_only =
     \<lparr>CASE_ID = 3, ACT_ID = ''H2B'', violation_found = True, ER_EE_VIOL = ''R'',
      VIOLATION_DESC = ex_pay, AMT_BW_ASSESSED = Some 7\<rparr>"

definition ex_join_miss :: violation where
  "ex_join_miss = ex_employee 4 ''H2A'' ex_pay (Some 500000)"

definition ex_violations :: "violation list" where
  "ex_violations =
     map (\<lambda>d. ex_employee 2 ''H2A'' d (Some 5)) non_guestworker_descs @
     [ex_employee 2 ''H2A'' ex_pay (Some 60000),
      ex_employee 3 ''H2B'' ex_pay (Some 40000),
      ex_employee 3 ''H2B'' ''09 Illegal charges for housing'' None,
      ex_employer_only,
      ex_join_miss,
      ex_employee 1 ''H2A'' ex_pay (Some 900000),
      ex_employee 5 ''H2A'' ex_pay (Some 99999.99)]"

text \<open>The rows this run has after the exclusion stage, and its employer aggregates.\<close>

definition ex_rows :: "h2_row list" where
  "ex_rows =
    [\<lparr>viol = ex_employee 2 ''H2A'' ex_pay (Some 60000),
      employer_id = Some ''22-2'', ER_LEGAL_NAME = Some ''Acme, Inc.''\<rparr>,
     \<lparr>viol = ex_employee 3 ''H2B'' ex_pay (Some 40000),
      employer_id = Some ''22-2'', ER_LEGAL_NAME = Some ''Acme Inc.''\<rparr>,
     \<lparr>viol = ex_employee 3 ''H2B'' ''09 Illegal charges for housing'' None,
      employer_id = Some ''22-2'', ER_LEGAL_NAME = Some ''Acme Inc.''\<rparr>,
     \<lparr>viol = ex_join_miss, employer_id = None, ER_LEGAL_NAME = None\<rparr>,
     \<lparr>viol = ex_employee 5 ''H2A'' ex_pay (Some 99999.99),
      employer_id = Some ''33-3'', ER_LEGAL_NAME = None\<rparr>]"

definition ex_acme :: aggregate where
  "ex_acme = \<lparr>h2_backwages = 100000, names = ''Acme Inc. | Acme, Inc.''\<rparr>"

definition ex_nameless :: aggregate where
  "ex_nameless = \<lparr>h2_backwages = 99999.99, names = ''''\<rparr>"

definition ex_aggregates :: "(string \<times> aggregate) list" where
  "ex_aggregates = [(''22-2'', ex_acme), (''33-3'', ex_nameless)]"

text \<open>
  Three rows for the exclusion stage: an excluded description, a proper prefix of it, and
  the same description in lower case.
\<close>

definition ex_desc_row :: "string \<Rightarrow> h2_row" where
  "ex_desc_row d =
     \<lparr>viol = ex_employee 2 ''H2A'' d (Some 5), employer_id = Some ''22-2'', ER_LEGAL_NAME = None\<rparr>"

definition ex_desc_rows :: "h2_row list" where
  "ex_desc_rows =
    [ex_desc_row ''17 Preferential treatment given to H-2A workers'',
     ex_desc_row ''17 Preferential treatment'',
     ex_desc_row ''17 preferential treatment given to h-2a workers'']"

lemmas cell_defs =
  notebook_def cases_def employer_basics_def h2_employee_violations_def descs_covered_def
  h2_guestworker_violations_def by_employer_def groupby_def employer_aggregates_def
  top_total_h2_backwages_def join_unique_strings_def select_def isin_def mask_and_def
  mask_not_def df_join_def set_minus_def

lemmas ex_defs =
  ex_cases_def ex_employers_def ex_violations_def ex_pay_def ex_employee_def
  ex_employer_only_def ex_join_miss_def ex_rows_def ex_acme_def ex_nameless_def
  ex_aggregates_def ex_desc_row_def ex_desc_rows_def non_guestworker_descs_def

section \<open>Masks and selection\<close>

lemma select_map: "select xs (map P xs) = filter P xs"
  by (induction xs) (simp_all add: select_def)

lemma mask_and_map: "mask_and (map P xs) (map Q xs) = map (\<lambda>x. P x \<and> Q x) xs"
  by (induction xs) (simp_all add: mask_and_def)

lemma mask_not_map: "mask_not (map P xs) = map (\<lambda>x. \<not> P x) xs"
  by (simp add: mask_not_def)

lemma isin_map: "isin (map f xs) vs = map (\<lambda>x. f x \<in> set vs) xs"
  by (simp add: isin_def)

section \<open>The cells as filters\<close>

lemma cases_filter:
  "cases ac = filter (\<lambda>c. 2010 \<le> DATE_CONCLUDED_YEAR c \<and> DATE_CONCLUDED_YEAR c \<le> 2014) ac"
  by (simp add: cases_def mask_and_map select_map)

lemma h2_employee_violations_filter:
  "h2_employee_violations (cases ac) eb vs = df_join (filter (filter_criteria ac) vs) eb"
proof -
  have "(\<lambda>v. ((ACT_ID v \<in> set [''H2A'', ''H2B''] \<and> CASE_ID v \<in> set (map c_CASE_ID (cases ac))) \<and>
            violation_found v = True) \<and> ER_EE_VIOL v = ''E'') = filter_criteria ac"
    by (auto simp: filter_criteria_def cases_filter fun_eq_iff intro!: rev_image_eqI)
  then show ?thesis
    by (simp add: h2_employee_violations_def isin_map mask_and_map select_map)
qed

lemma h2_guestworker_violations_filter:
  "h2_guestworker_violations rows =
     filter (\<lambda>r. VIOLATION_DESC (viol r) \<notin> set non_guestworker_descs) rows"
  by (simp add: h2_guestworker_violations_def isin_map mask_not_map select_map)

lemma set_top_total_h2_backwages:
  "set (top_total_h2_backwages aggs) = {ka \<in> set aggs. h2_backwages (snd ka) \<ge> 100000}"
  by (simp add: top_total_h2_backwages_def select_map map_map comp_def)

section \<open>The left join\<close>

lemma viol_df_join:
  assumes "r \<in> set (df_join left right)"
  shows "viol r \<in> set left"
proof -
  from assms obtain v where v: "v \<in> set left" and
    r: "r \<in> set (case filter (\<lambda>e. fst e = CASE_ID v) right of
         [] \<Rightarrow> [\<lparr>viol = v, employer_id = None, ER_LEGAL_NAME = None\<rparr>]
       | ms \<Rightarrow> map (\<lambda>e. \<lparr>viol = v, employer_id = fst (snd e), ER_LEGAL_NAME = snd (snd e)\<rparr>) ms)"
    by (auto simp: df_join_def)
  from r have "viol r = v"
    by (cases "filter (\<lambda>e. fst e = CASE_ID v) right") auto
  with v show ?thesis by simp
qed

lemma set_viol_df_join: "viol ` set (df_join left right) = set left"
proof
  show "viol ` set (df_join left right) \<subseteq> set left"
    using viol_df_join by blast
  show "set left \<subseteq> viol ` set (df_join left right)"
  proof
    fix v assume v: "v \<in> set left"
    show "v \<in> viol ` set (df_join left right)"
    proof (cases "filter (\<lambda>e. fst e = CASE_ID v) right")
      case Nil
      with v have "\<lparr>viol = v, employer_id = None, ER_LEGAL_NAME = None\<rparr> \<in> set (df_join left right)"
        by (force simp: df_join_def)
      then show ?thesis by force
    next
      case (Cons e es)
      with v have "\<lparr>viol = v, employer_id = fst (snd e), ER_LEGAL_NAME = snd (snd e)\<rparr> \<in> set (df_join left right)"
        by (force simp: df_join_def)
      then show ?thesis by force
    qed
  qed
qed

lemma df_join_Cons: "df_join (v # vs) right = df_join [v] right @ df_join vs right"
  by (simp add: df_join_def)

lemma df_join_filter: "df_join (filter P left) right = filter (\<lambda>r. P (viol r)) (df_join left right)"
proof (induction left)
  case Nil
  show ?case by (simp add: df_join_def)
next
  case (Cons v vs)
  have step: "df_join (v # xs) right = df_join [v] right @ df_join xs right" for xs
    by (simp add: df_join_def)
  have one: "\<forall>r \<in> set (df_join [v] right). viol r = v"
    by (auto simp: df_join_def split: list.splits)
  have "filter (\<lambda>r. P (viol r)) (df_join [v] right) = (if P v then df_join [v] right else [])"
    using one by (auto simp: filter_empty_conv filter_id_conv)
  with Cons show ?case
    by (simp add: step[of vs] step[of "filter P vs"])
qed

lemma df_join_unmatched:
  assumes "r \<in> set (df_join left right)" and "CASE_ID (viol r) \<notin> fst ` set right"
  shows "employer_id r = None \<and> ER_LEGAL_NAME r = None"
proof -
  from assms(1) obtain v where v: "v \<in> set left" and
    r: "r \<in> set (case filter (\<lambda>e. fst e = CASE_ID v) right of
         [] \<Rightarrow> [\<lparr>viol = v, employer_id = None, ER_LEGAL_NAME = None\<rparr>]
       | ms \<Rightarrow> map (\<lambda>e. \<lparr>viol = v, employer_id = fst (snd e), ER_LEGAL_NAME = snd (snd e)\<rparr>) ms)"
    by (auto simp: df_join_def)
  show ?thesis
  proof (cases "filter (\<lambda>e. fst e = CASE_ID v) right")
    case Nil
    with r show ?thesis by simp
  next
    case (Cons e es)
    with r have "viol r = v" by auto
    moreover from Cons have "e \<in> set (filter (\<lambda>e. fst e = CASE_ID v) right)" by simp
    ultimately have "CASE_ID (viol r) \<in> fst ` set right" by force
    with assms(2) show ?thesis by simp
  qed
qed

lemma filter_key_distinct:
  "distinct (map fst xs) \<Longrightarrow>
     filter (\<lambda>e. fst e = k) xs = [] \<or> (\<exists>e. filter (\<lambda>e. fst e = k) xs = [e])"
proof (induction xs)
  case Nil
  show ?case by simp
next
  case (Cons x xs)
  show ?case
  proof (cases "fst x = k")
    case True
    from Cons.prems have "fst x \<notin> fst ` set xs" by simp
    with True have "\<forall>e \<in> set xs. fst e \<noteq> k" by (metis imageI)
    then have "filter (\<lambda>e. fst e = k) xs = []" by (simp add: filter_empty_conv)
    with True show ?thesis by simp
  next
    case False
    with Cons show ?thesis by simp
  qed
qed

lemma df_join_single:
  assumes "distinct (map fst right)"
  shows "\<exists>r. df_join [v] right = [r] \<and> viol r = v \<and>
           (\<forall>k. employer_id r = Some k \<longleftrightarrow>
                 (\<exists>e \<in> set right. fst e = CASE_ID v \<and> fst (snd e) = Some k))"
proof -
  from filter_key_distinct [OF assms, of "CASE_ID v"]
  consider "filter (\<lambda>e. fst e = CASE_ID v) right = []"
    | e where "filter (\<lambda>e. fst e = CASE_ID v) right = [e]" by blast
  then show ?thesis
  proof cases
    case 1
    then have "\<forall>e \<in> set right. fst e \<noteq> CASE_ID v" by (simp add: filter_empty_conv)
    with 1 show ?thesis by (simp add: df_join_def)
  next
    case 2
    have "set (filter (\<lambda>e. fst e = CASE_ID v) right) = {e}" by (simp add: 2)
    then have "{e' \<in> set right. fst e' = CASE_ID v} = {e}" by simp
    then have e: "\<forall>e'. (e' \<in> set right \<and> fst e' = CASE_ID v) = (e' = e)" by blast
    have "df_join [v] right = [\<lparr>viol = v, employer_id = fst (snd e), ER_LEGAL_NAME = snd (snd e)\<rparr>]"
      by (simp add: df_join_def 2)
    moreover have "(\<exists>e' \<in> set right. fst e' = CASE_ID v \<and> fst (snd e') = Some k) \<longleftrightarrow> fst (snd e) = Some k" for k
      using e by (intro iffI) (metis, metis)
    ultimately show ?thesis by simp
  qed
qed

lemma viol_group_df_join:
  assumes "distinct (map fst right)"
  shows "map viol (filter (\<lambda>r. employer_id r = Some k) (df_join left right))
           = filter (\<lambda>v. \<exists>e \<in> set right. fst e = CASE_ID v \<and> fst (snd e) = Some k) left"
proof (induction left)
  case Nil
  show ?case by (simp add: df_join_def)
next
  case (Cons v vs)
  from df_join_single [OF assms, of v] obtain r where
    r: "df_join [v] right = [r]" "viol r = v"
       "employer_id r = Some k \<longleftrightarrow> (\<exists>e \<in> set right. fst e = CASE_ID v \<and> fst (snd e) = Some k)"
    by blast
  show ?case
    unfolding df_join_Cons [of v vs] using Cons r by simp
qed

lemma resolves_to_basics:
  "(\<exists>e \<in> set (employer_basics ae). fst e = CASE_ID v \<and> fst (snd e) = Some k) \<longleftrightarrow> resolves_to ae v k"
  by (auto simp: employer_basics_def resolves_to_def)


section \<open>Groups and aggregates\<close>


lemma groupby_keys:
  "fst ` set (groupby rows) = {k. \<exists>r \<in> set rows. employer_id r = Some k}"
  by (force simp: groupby_def image_iff split: option.splits)

lemma groupby_mem:
  "(k, g) \<in> set (groupby rows) \<Longrightarrow> g = filter (\<lambda>r. employer_id r = Some k) rows"
  by (auto simp: groupby_def)

lemma groupby_nonnull:
  "groupby rows = groupby (filter (\<lambda>r. employer_id r \<noteq> None) rows)"
proof -
  have k: "concat (map (\<lambda>r. case employer_id r of None \<Rightarrow> [] | Some k \<Rightarrow> [k]) rows)
         = concat (map (\<lambda>r. case employer_id r of None \<Rightarrow> [] | Some k \<Rightarrow> [k])
             (filter (\<lambda>r. employer_id r \<noteq> None) rows))"
    by (induction rows) (auto split: option.splits)
  have g: "filter (\<lambda>r. employer_id r = Some k) rows
         = filter (\<lambda>r. employer_id r = Some k) (filter (\<lambda>r. employer_id r \<noteq> None) rows)" for k
    by (induction rows) auto
  show ?thesis
    unfolding groupby_def by (simp only: k [symmetric] g [symmetric])
qed

lemma employer_aggregates_mem:
  assumes "(k, a) \<in> set (employer_aggregates (by_employer rows))"
  shows "a = \<lparr>h2_backwages = series_sum (map (\<lambda>r. AMT_BW_ASSESSED (viol r))
                   (filter (\<lambda>r. employer_id r = Some k) rows)),
              names = join_unique_strings (map ER_LEGAL_NAME
                   (filter (\<lambda>r. employer_id r = Some k) rows))\<rparr>"
  using assms by (auto simp: employer_aggregates_def by_employer_def dest: groupby_mem)

lemma employer_aggregates_key:
  assumes "(k, a) \<in> set (employer_aggregates (by_employer rows))"
  shows "\<exists>r \<in> set rows. employer_id r = Some k"
proof -
  from assms have "k \<in> fst ` set (groupby rows)"
    by (force simp: employer_aggregates_def by_employer_def)
  then show ?thesis by (simp add: groupby_keys)
qed

lemma fillna_map:
  "fillna (map f xs) d = map (\<lambda>x. case f x of None \<Rightarrow> d | Some s \<Rightarrow> s) xs"
  by (induction xs) (auto split: option.splits)

lemma join_unique_strings_set:
  "join_unique_strings (map ER_LEGAL_NAME (filter (\<lambda>r. employer_id r = Some k) rows))
     = str_join '' | '' (sorted_list_of_set (normalized_names rows k))"
proof -
  have "set (map (\<lambda>r. case ER_LEGAL_NAME r of None \<Rightarrow> '''' | Some s \<Rightarrow> s)
              (filter (\<lambda>r. employer_id r = Some k) rows)) = normalized_names rows k"
    by (simp add: normalized_names_def)
  then show ?thesis
    unfolding join_unique_strings_def fillna_map
    by (simp only: sorted_list_of_set_sort_remdups [symmetric])
qed

lemma employer_aggregates_names:
  assumes "(k, a) \<in> set (employer_aggregates (by_employer rows))"
  shows "names a = str_join '' | '' (sorted_list_of_set (normalized_names rows k))"
  using employer_aggregates_mem [OF assms] by (simp add: join_unique_strings_set)

text \<open>
  The amounts that enter an employer's total are those of the loaded violations that
  resolve to the employer, meet the filter criteria and carry no excluded description,
  each once when every case has one employer record.
\<close>

lemma group_amount_column:
  assumes "distinct (map e_CASE_ID ae)"
  shows "mset (map (\<lambda>r. AMT_BW_ASSESSED (viol r))
           (filter (\<lambda>r. employer_id r = Some k)
             (h2_guestworker_violations
               (h2_employee_violations (cases ac) (employer_basics ae) vs))))
         = mset (map AMT_BW_ASSESSED
             (filter (\<lambda>v. resolves_to ae v k \<and> filter_criteria ac v \<and>
                           VIOLATION_DESC v \<notin> set non_guestworker_descs) vs))"
proof -
  have d: "distinct (map fst (employer_basics ae))"
    using assms by (simp add: employer_basics_def comp_def)
  let ?L = "filter (\<lambda>v. VIOLATION_DESC v \<notin> set non_guestworker_descs) (filter (filter_criteria ac) vs)"
  have rows: "h2_guestworker_violations (h2_employee_violations (cases ac) (employer_basics ae) vs)
                = df_join ?L (employer_basics ae)"
    by (simp add: h2_guestworker_violations_filter h2_employee_violations_filter df_join_filter)
  have "map (\<lambda>r. AMT_BW_ASSESSED (viol r)) (filter (\<lambda>r. employer_id r = Some k) (df_join ?L (employer_basics ae)))
          = map AMT_BW_ASSESSED (map viol (filter (\<lambda>r. employer_id r = Some k) (df_join ?L (employer_basics ae))))"
    by simp
  also have "\<dots> = map AMT_BW_ASSESSED (filter (\<lambda>v. resolves_to ae v k) ?L)"
    by (simp only: viol_group_df_join [OF d] resolves_to_basics)
  also have "filter (\<lambda>v. resolves_to ae v k) ?L
       = filter (\<lambda>v. resolves_to ae v k \<and> filter_criteria ac v \<and>
                     VIOLATION_DESC v \<notin> set non_guestworker_descs) vs"
    by (simp add: conj_commute conj_left_commute cong: conj_cong)
  finally show ?thesis by (simp only: rows)
qed

lemma rows_drop_unmatched:
  assumes "\<forall>v \<in> set vs. \<not> P v \<longrightarrow> CASE_ID v \<notin> fst ` set eb"
  shows "filter (\<lambda>r. employer_id r \<noteq> None)
           (h2_guestworker_violations (h2_employee_violations (cases ac) eb (filter P vs)))
       = filter (\<lambda>r. employer_id r \<noteq> None)
           (h2_guestworker_violations (h2_employee_violations (cases ac) eb vs))"
proof -
  let ?J = "df_join (filter (filter_criteria ac) vs) eb"
  have comm: "filter (filter_criteria ac) (filter P vs) = filter P (filter (filter_criteria ac) vs)"
    by (simp add: conj_commute)
  have l: "h2_guestworker_violations (h2_employee_violations (cases ac) eb (filter P vs))
         = filter (\<lambda>r. VIOLATION_DESC (viol r) \<notin> set non_guestworker_descs)
             (filter (\<lambda>r. P (viol r)) ?J)"
    by (simp only: h2_guestworker_violations_filter h2_employee_violations_filter comm df_join_filter)
  have r: "h2_guestworker_violations (h2_employee_violations (cases ac) eb vs)
         = filter (\<lambda>r. VIOLATION_DESC (viol r) \<notin> set non_guestworker_descs) ?J"
    by (simp only: h2_guestworker_violations_filter h2_employee_violations_filter)
  have keep: "P (viol r)" if "r \<in> set ?J" "employer_id r \<noteq> None" for r
  proof (rule ccontr)
    assume "\<not> P (viol r)"
    moreover from viol_df_join [OF that(1)] have "viol r \<in> set vs" by simp
    ultimately have "CASE_ID (viol r) \<notin> fst ` set eb" using assms by blast
    from df_join_unmatched [OF that(1) this] that(2) show False by simp
  qed
  show ?thesis
    unfolding l r filter_filter
    by (rule filter_cong [OF refl]) (use keep in blast)
qed

lemma aggregates_drop_unmatched:
  assumes "\<forall>v \<in> set vs. \<not> P v \<longrightarrow> CASE_ID v \<notin> fst ` set eb"
  shows "by_employer (h2_guestworker_violations (h2_employee_violations (cases ac) eb (filter P vs)))
       = by_employer (h2_guestworker_violations (h2_employee_violations (cases ac) eb vs))"
  unfolding by_employer_def
  by (subst groupby_nonnull, subst (2) groupby_nonnull)
     (simp only: rows_drop_unmatched [OF assms])

section \<open>The assertion\<close>

lemma descs_covered_iff:
  "descs_covered h2ev \<longleftrightarrow> set non_guestworker_descs \<subseteq> VIOLATION_DESC ` viol ` set h2ev"
  by (auto simp: descs_covered_def set_minus_def filter_empty_conv image_iff)

lemma notebook_Inl_iff:
  "notebook ac ae vs = Inl e \<longleftrightarrow>
     e = AssertionError '''' \<and>
     \<not> descs_covered (h2_employee_violations (cases ac) (employer_basics ae) vs)"
  by (auto simp: notebook_def Let_def)

lemma notebook_Inr_iff:
  "notebook ac ae vs = Inr out \<longleftrightarrow>
     descs_covered (h2_employee_violations (cases ac) (employer_basics ae) vs) \<and>
     out = top_total_h2_backwages (employer_aggregates (by_employer
             (h2_guestworker_violations (h2_employee_violations (cases ac) (employer_basics ae) vs))))"
  by (auto simp: notebook_def Let_def)

section \<open>The small run, evaluated\<close>


lemma ex_h2_guestworker_violations:
  "h2_guestworker_violations
     (h2_employee_violations (cases ex_cases) (employer_basics ex_employers) ex_violations)
   = ex_rows"
  by (simp add: cell_defs ex_defs)

lemma ex_employer_aggregates: "employer_aggregates (by_employer ex_rows) = ex_aggregates"
  by (simp add: cell_defs ex_defs)

lemma ex_notebook: "notebook ex_cases ex_employers ex_violations = Inr [(''22-2'', ex_acme)]"
  by (simp add: cell_defs ex_defs)

lemma ex_notebook_raises:
  "notebook ex_cases ex_employers [ex_join_miss] = Inl (AssertionError '''')"
  by (simp add: cell_defs ex_defs)

section \<open>The claims\<close>

subsection \<open>Filter stage\<close>

text \<open>
  Claim C2. The filter stage keeps exactly the violations that meet all four criteria:
  category code \<open>H2A\<close> or \<open>H2B\<close>, case among the loaded cases concluded in 2010 to 2014
  (both ends included), outcome flag true, record-type flag \<open>E\<close>. The violations
  underlying the rows of \<^verbatim>\<open>h2_employee_violations\<close> are exactly those; in particular a
  violation whose record-type flag is not \<open>E\<close> underlies no row.
\<close>

theorem filter_stage_exact:
  "viol ` set (h2_employee_violations (cases ac) (employer_basics ae) vs)
     = {v \<in> set vs. filter_criteria ac v}
   \<and> (ER_EE_VIOL w \<noteq> ''E'' \<longrightarrow>
        w \<notin> viol ` set (h2_employee_violations (cases ac) (employer_basics ae) vs))"
  by (auto simp: h2_employee_violations_filter set_viol_df_join filter_criteria_def)

theorem filter_stage_exact_witness:
  "ER_EE_VIOL ex_employer_only \<noteq> ''E''
   \<and> ex_employer_only \<in> set ex_violations
   \<and> ex_employer_only \<notin>
       viol ` set (h2_employee_violations (cases ex_cases) (employer_basics ex_employers) ex_violations)
   \<and> filter_criteria ex_cases ex_join_miss
   \<and> ex_join_miss \<in>
       viol ` set (h2_employee_violations (cases ex_cases) (employer_basics ex_employers) ex_violations)"
proof -
  have h: "ER_EE_VIOL ex_employer_only \<noteq> ''E''"
    by (simp add: ex_employer_only_def)
  have m: "ex_employer_only \<in> set ex_violations" "ex_join_miss \<in> set ex_violations"
    by (simp_all add: ex_violations_def)
  have c: "filter_criteria ex_cases ex_join_miss"
    by (simp add: filter_criteria_def ex_cases_def ex_join_miss_def ex_employee_def)
  note t = filter_stage_exact [of ex_cases ex_employers ex_violations ex_employer_only]
  from t h have out: "ex_employer_only \<notin>
      viol ` set (h2_employee_violations (cases ex_cases) (employer_basics ex_employers) ex_violations)"
    by blast
  from t m(2) c have "ex_join_miss \<in>
      viol ` set (h2_employee_violations (cases ex_cases) (employer_basics ex_employers) ex_violations)"
    by blast
  with h m(1) c out show ?thesis by blast
qed

subsection \<open>Missing exclusion entry\<close>

text \<open>
  Claim C3. If the exclusion list has an entry that is the description of no row of the
  employee-affecting filtered set, the run ends in the assertion's error: no aggregate is
  computed and there is no output table.
\<close>

theorem missing_exclusion_entry_raises:
  assumes "d \<in> set non_guestworker_descs"
    and "d \<notin> VIOLATION_DESC ` viol ` set (h2_employee_violations (cases ac) (employer_basics ae) vs)"
  shows "notebook ac ae vs = Inl (AssertionError '''')"
proof -
  from assms have "\<not> descs_covered (h2_employee_violations (cases ac) (employer_basics ae) vs)"
    unfolding descs_covered_iff by blast
  then show ?thesis by (simp add: notebook_Inl_iff)
qed

theorem missing_exclusion_entry_raises_witness:
  "''17 Preferential treatment given to H-2A workers'' \<in> set non_guestworker_descs
   \<and> ''17 Preferential treatment given to H-2A workers'' \<notin>
       VIOLATION_DESC ` viol ` set (h2_employee_violations (cases ex_cases)
         (employer_basics ex_employers) [ex_join_miss])
   \<and> notebook ex_cases ex_employers [ex_join_miss] = Inl (AssertionError '''')"
proof -
  have a: "''17 Preferential treatment given to H-2A workers'' \<in> set non_guestworker_descs"
    by (simp add: non_guestworker_descs_def)
  have b: "''17 Preferential treatment given to H-2A workers'' \<notin>
       VIOLATION_DESC ` viol ` set (h2_employee_violations (cases ex_cases)
         (employer_basics ex_employers) [ex_join_miss])"
    by (simp add: cell_defs ex_defs)
  from a b missing_exclusion_entry_raises [OF a b] show ?thesis by simp
qed

subsection \<open>The error's message\<close>

text \<open>
  Claim C4, as stated: when the assertion's error is raised, its message names the missing
  entries. It fails: on a run whose only violation has none of the listed descriptions the
  error is raised, the first entry of the list is missing, and the message is the empty
  string, of which that entry is no part.
\<close>

theorem assert_message_counterexample:
  "notebook ex_cases ex_employers [ex_join_miss] = Inl (AssertionError '''')
   \<and> ''17 Preferential treatment given to H-2A workers'' \<in> set non_guestworker_descs
   \<and> ''17 Preferential treatment given to H-2A workers'' \<notin>
       VIOLATION_DESC ` viol ` set (h2_employee_violations (cases ex_cases)
         (employer_basics ex_employers) [ex_join_miss])
   \<and> \<not> sublist ''17 Preferential treatment given to H-2A workers'' ''''"
proof -
  have a: "''17 Preferential treatment given to H-2A workers'' \<in> set non_guestworker_descs"
    by (simp add: non_guestworker_descs_def)
  have b: "''17 Preferential treatment given to H-2A workers'' \<notin>
       VIOLATION_DESC ` viol ` set (h2_employee_violations (cases ex_cases)
         (employer_basics ex_employers) [ex_join_miss])"
    by (simp add: cell_defs ex_defs)
  have c: "\<not> sublist ''17 Preferential treatment given to H-2A workers'' ''''"
    by simp
  from ex_notebook_raises a b c show ?thesis by simp
qed

text \<open>
  Claim C4, amended: when the assertion's error is raised, it is an \<open>AssertionError\<close>
  whose message is empty; no entry is named in it.
\<close>

theorem assert_message_empty:
  assumes "notebook ac ae vs = Inl e"
  shows "e = AssertionError ''''"
  using assms by (simp add: notebook_Inl_iff)

theorem assert_message_empty_witness:
  "notebook ex_cases ex_employers [ex_join_miss] = Inl (AssertionError '''')"
proof -
  obtain e where e: "notebook ex_cases ex_employers [ex_join_miss] = Inl e"
    using ex_notebook_raises by simp
  from assert_message_empty [OF e] e show ?thesis by simp
qed

subsection \<open>Exclusion stage\<close>

text \<open>
  Claim C5. The exclusion stage removes exactly the rows whose description is, as a whole
  string and with its case, an entry of the exclusion list: every surviving row's
  description is outside the list, and every row whose description is outside the list
  survives.
\<close>

theorem exclusion_stage:
  "h2_guestworker_violations rows
     = filter (\<lambda>r. VIOLATION_DESC (viol r) \<notin> set non_guestworker_descs) rows
   \<and> (\<forall>r \<in> set (h2_guestworker_violations rows). VIOLATION_DESC (viol r) \<notin> set non_guestworker_descs)
   \<and> (\<forall>r \<in> set rows. VIOLATION_DESC (viol r) \<notin> set non_guestworker_descs
         \<longrightarrow> r \<in> set (h2_guestworker_violations rows))"
  by (simp add: h2_guestworker_violations_filter)

theorem exclusion_stage_witness:
  "h2_guestworker_violations ex_desc_rows =
     [ex_desc_row ''17 Preferential treatment'',
      ex_desc_row ''17 preferential treatment given to h-2a workers'']"
proof -
  from exclusion_stage [of ex_desc_rows]
  have "h2_guestworker_violations ex_desc_rows
          = filter (\<lambda>r. VIOLATION_DESC (viol r) \<notin> set non_guestworker_descs) ex_desc_rows"
    by (rule conjunct1)
  then show ?thesis
    by (simp add: ex_desc_rows_def ex_desc_row_def ex_employee_def non_guestworker_descs_def)
qed

subsection \<open>Name summary\<close>



subsection \<open>Ranking stage\<close>

text \<open>
  Claim C7. The ranking stage keeps exactly the employer aggregates whose total is at
  least 100000 and lists them by descending total: an aggregate of exactly 100000 is kept,
  one of 99999.99 is not.
\<close>

theorem ranking_stage:
  "mset (top_total_h2_backwages aggs) = mset (filter (\<lambda>ka. h2_backwages (snd ka) \<ge> 100000) aggs)
   \<and> sorted_wrt (\<lambda>x y. h2_backwages (snd x) \<ge> h2_backwages (snd y)) (top_total_h2_backwages aggs)
   \<and> ((k, a) \<in> set aggs \<and> h2_backwages a = 100000 \<longrightarrow> (k, a) \<in> set (top_total_h2_backwages aggs))
   \<and> (h2_backwages a = 99999.99 \<longrightarrow> (k, a) \<notin> set (top_total_h2_backwages aggs))"
proof -
  have sel: "select aggs (map (\<lambda>t. t \<ge> 100000) (map (\<lambda>ka. h2_backwages (snd ka)) aggs))
               = filter (\<lambda>ka. h2_backwages (snd ka) \<ge> 100000) aggs"
    by (simp add: select_map map_map comp_def)
  have m: "mset (top_total_h2_backwages aggs) = mset (filter (\<lambda>ka. h2_backwages (snd ka) \<ge> 100000) aggs)"
    by (simp only: top_total_h2_backwages_def sel mset_sort)
  have "sorted (map (\<lambda>ka. - h2_backwages (snd ka)) (top_total_h2_backwages aggs))"
    unfolding top_total_h2_backwages_def by (rule sorted_sort_key)
  then have s: "sorted_wrt (\<lambda>x y. h2_backwages (snd x) \<ge> h2_backwages (snd y)) (top_total_h2_backwages aggs)"
    by (simp add: sorted_map)
  have i: "(k, a) \<in> set (top_total_h2_backwages aggs)" if "(k, a) \<in> set aggs" "h2_backwages a = 100000"
    using that by (simp add: set_top_total_h2_backwages)
  have e: "(k, a) \<notin> set (top_total_h2_backwages aggs)" if "h2_backwages a = 99999.99"
    using that by (simp add: set_top_total_h2_backwages)
  from m s i e show ?thesis by blast
qed

theorem ranking_stage_witness:
  "(''22-2'', ex_acme) \<in> set ex_aggregates \<and> h2_backwages ex_acme = 100000
   \<and> (''22-2'', ex_acme) \<in> set (top_total_h2_backwages ex_aggregates)
   \<and> (''33-3'', ex_nameless) \<in> set ex_aggregates \<and> h2_backwages ex_nameless = 99999.99
   \<and> (''33-3'', ex_nameless) \<notin> set (top_total_h2_backwages ex_aggregates)"
proof -
  have a: "(''22-2'', ex_acme) \<in> set ex_aggregates" "h2_backwages ex_acme = 100000"
    by (simp_all add: ex_aggregates_def ex_acme_def)
  have b: "(''33-3'', ex_nameless) \<in> set ex_aggregates" "h2_backwages ex_nameless = 99999.99"
    by (simp_all add: ex_aggregates_def ex_nameless_def)
  from ranking_stage [of ex_aggregates "''22-2''" ex_acme] a
  have i: "(''22-2'', ex_acme) \<in> set (top_total_h2_backwages ex_aggregates)"
    by blast
  from ranking_stage [of ex_aggregates "''33-3''" ex_nameless] b
  have e: "(''33-3'', ex_nameless) \<notin> set (top_total_h2_backwages ex_aggregates)"
    by blast
  from a b i e show ?thesis by blast
qed

subsection \<open>Non-negative aggregates\<close>



subsection \<open>Join miss\<close>

text \<open>
  Claim C9. A violation whose case has no employer record contributes to no employer
  aggregate: the left join leaves its employer identifier and legal name null, no
  employer's group holds a row of it, and the employer aggregates are those of the run
  without it.
\<close>

theorem join_miss_contributes_nothing:
  assumes "CASE_ID v \<notin> e_CASE_ID ` set ae"
  shows "(\<forall>r \<in> set (h2_employee_violations (cases ac) (employer_basics ae) vs).
            viol r = v \<longrightarrow> employer_id r = None \<and> ER_LEGAL_NAME r = None)
       \<and> (\<forall>kg \<in> set (by_employer (h2_guestworker_violations
                 (h2_employee_violations (cases ac) (employer_basics ae) vs))).
            \<forall>r \<in> set (snd kg). viol r \<noteq> v)
       \<and> employer_aggregates (by_employer (h2_guestworker_violations
            (h2_employee_violations (cases ac) (employer_basics ae) vs)))
         = employer_aggregates (by_employer (h2_guestworker_violations
            (h2_employee_violations (cases ac) (employer_basics ae) (filter (\<lambda>w. w \<noteq> v) vs))))"
proof -
  let ?eb = "employer_basics ae"
  let ?H = "h2_employee_violations (cases ac) ?eb vs"
  from assms have u: "CASE_ID v \<notin> fst ` set ?eb"
    by (simp add: employer_basics_def image_image)
  have a: "employer_id r = None \<and> ER_LEGAL_NAME r = None" if "r \<in> set ?H" "viol r = v" for r
  proof -
    from that(1) have "r \<in> set (df_join (filter (filter_criteria ac) vs) ?eb)"
      by (simp add: h2_employee_violations_filter)
    from df_join_unmatched [OF this] that(2) u show ?thesis by simp
  qed
  have b: "viol r \<noteq> v" if "kg \<in> set (by_employer (h2_guestworker_violations ?H))" "r \<in> set (snd kg)" for kg r
  proof
    assume v: "viol r = v"
    obtain k g where kg: "kg = (k, g)" by (cases kg)
    with that(1) have "g = filter (\<lambda>r. employer_id r = Some k) (h2_guestworker_violations ?H)"
      by (simp add: by_employer_def groupby_mem)
    with that(2) kg have "r \<in> set ?H" "employer_id r = Some k"
      by (simp_all add: h2_guestworker_violations_filter)
    with a [OF this(1) v] show False by simp
  qed
  have "\<forall>w \<in> set vs. \<not> w \<noteq> v \<longrightarrow> CASE_ID w \<notin> fst ` set ?eb"
    using u by simp
  from aggregates_drop_unmatched [OF this, of ac]
  have c: "by_employer (h2_guestworker_violations ?H)
         = by_employer (h2_guestworker_violations
            (h2_employee_violations (cases ac) ?eb (filter (\<lambda>w. w \<noteq> v) vs)))"
    by simp
  from a b c show ?thesis by (simp only:) blast
qed

theorem join_miss_contributes_nothing_witness:
  "CASE_ID ex_join_miss \<notin> e_CASE_ID ` set ex_employers
   \<and> filter_criteria ex_cases ex_join_miss
   \<and> ex_join_miss \<in> set ex_violations
   \<and> employer_aggregates (by_employer (h2_guestworker_violations
        (h2_employee_violations (cases ex_cases) (employer_basics ex_employers)
           (filter (\<lambda>w. w \<noteq> ex_join_miss) ex_violations))))
      = ex_aggregates"
proof -
  have u: "CASE_ID ex_join_miss \<notin> e_CASE_ID ` set ex_employers"
    by (simp add: ex_join_miss_def ex_employee_def ex_employers_def)
  have c: "filter_criteria ex_cases ex_join_miss"
    by (simp add: filter_criteria_def ex_cases_def ex_join_miss_def ex_employee_def)
  have m: "ex_join_miss \<in> set ex_violations"
    by (simp add: ex_violations_def)
  from join_miss_contributes_nothing [OF u, of ex_cases ex_violations]
  have "employer_aggregates (by_employer (h2_guestworker_violations
        (h2_employee_violations (cases ex_cases) (employer_basics ex_employers)
           (filter (\<lambda>w. w \<noteq> ex_join_miss) ex_violations))))
      = employer_aggregates (by_employer (h2_guestworker_violations
        (h2_employee_violations (cases ex_cases) (employer_basics ex_employers) ex_violations)))"
    by simp
  with u c m show ?thesis
    by (simp add: ex_h2_guestworker_violations ex_employer_aggregates)
qed

subsection \<open>Groups with a single name\<close>

text \<open>
  Claim C10. For an employer group all of whose legal names are null, \<open>names\<close> is the
  empty string; more generally, for a group with exactly one distinct name (a null read as
  the empty string), \<open>names\<close> is that name, with no delimiter added.
\<close>

theorem names_single:
  assumes "(eid, a) \<in> set (employer_aggregates (by_employer rows))"
  shows "((\<forall>r \<in> set rows. employer_id r = Some eid \<longrightarrow> ER_LEGAL_NAME r = None) \<longrightarrow> names a = '''')
       \<and> (normalized_names rows eid = {n} \<longrightarrow> names a = n)"
proof -
  have n: "names a = str_join '' | '' (sorted_list_of_set (normalized_names rows eid))"
    by (rule employer_aggregates_names [OF assms])
  have one: "names a = m" if "normalized_names rows eid = {m}" for m
    using n that by simp
  have "normalized_names rows eid = {''''}"
    if "\<forall>r \<in> set rows. employer_id r = Some eid \<longrightarrow> ER_LEGAL_NAME r = None"
  proof -
    from employer_aggregates_key [OF assms] obtain r0 where "r0 \<in> set rows" "employer_id r0 = Some eid"
      by blast
    with that show ?thesis
      by (auto simp: normalized_names_def image_iff)
  qed
  with one show ?thesis by blast
qed

theorem names_single_witness:
  "(''33-3'', ex_nameless) \<in> set (employer_aggregates (by_employer ex_rows))
   \<and> list_all (\<lambda>r. employer_id r = Some ''33-3'' \<longrightarrow> ER_LEGAL_NAME r = None) ex_rows
   \<and> names ex_nameless = ''''"
proof -
  have m: "(''33-3'', ex_nameless) \<in> set (employer_aggregates (by_employer ex_rows))"
    by (simp add: ex_employer_aggregates ex_aggregates_def)
  have a: "list_all (\<lambda>r. employer_id r = Some ''33-3'' \<longrightarrow> ER_LEGAL_NAME r = None) ex_rows"
    by (simp add: ex_rows_def)
  then have "\<forall>r \<in> set ex_rows. employer_id r = Some ''33-3'' \<longrightarrow> ER_LEGAL_NAME r = None"
    by (simp only: list_all_iff)
  with names_single [OF m] have "names ex_nameless = ''''"
    by blast
  with m a show ?thesis by simp
qed

end
